theory Spec2Isabelle
  imports Main
begin

section \<open>Data model of \<^verbatim>\<open>src/native-lib.cpp\<close>\<close>

text \<open>
  The development embeds the class \<^verbatim>\<open>ChessGame\<close> of \<^verbatim>\<open>src/native-lib.cpp\<close>.
  The C++ \<^verbatim>\<open>int\<close> coordinates and scores are modelled by \<open>int\<close>: every value the
  engine computes is bounded in magnitude by a few millions, far from the 32-bit range.
  Member functions that assign to members are state transformers returning the
  result together with the new \<open>GameState\<close>; member functions without any assignment
  to a member are functions of the state.
\<close>

datatype PieceType = EMPTY | PAWN | KNIGHT | BISHOP | ROOK | QUEEN | KING

datatype Color = NONE | WHITE | BLACK

record Piece =
  type :: PieceType
  color :: Color
  hasMoved :: bool

record Move =
  fromRow :: int
  fromCol :: int
  toRow :: int
  toCol :: int
  isCapture :: bool
  isCastling :: bool
  isEnPassant :: bool
  isPromotion :: bool
  score :: int

record GameState =
  board :: "Piece list list"
  currentPlayer :: Color
  whiteKingMoved :: bool
  blackKingMoved :: bool
  whiteRookAMoved :: bool
  whiteRookHMoved :: bool
  blackRookAMoved :: bool
  blackRookHMoved :: bool
  enPassantCol :: int
  enPassantRow :: int
  moveHistory :: "Move list"

text \<open>The aggregate \<^verbatim>\<open>{EMPTY, NONE, false}\<close>.\<close>

definition emptyPiece :: Piece where
  "emptyPiece = \<lparr>type = EMPTY, color = NONE, hasMoved = False\<rparr>"

text \<open>The aggregate initialisation \<^verbatim>\<open>{fromRow, fromCol, toRow, toCol, ...}\<close> of a \<^verbatim>\<open>Move\<close>.\<close>

definition mkMove :: "int \<Rightarrow> int \<Rightarrow> int \<Rightarrow> int \<Rightarrow> bool \<Rightarrow> bool \<Rightarrow> bool \<Rightarrow> bool \<Rightarrow> int \<Rightarrow> Move" where
  "mkMove fr fc tr tc cap cas ep pr sc =
     \<lparr>fromRow = fr, fromCol = fc, toRow = tr, toCol = tc, isCapture = cap,
      isCastling = cas, isEnPassant = ep, isPromotion = pr, score = sc\<rparr>"

definition isValidPosition :: "int \<Rightarrow> int \<Rightarrow> bool" where
  "isValidPosition row col \<longleftrightarrow> row \<ge> 0 \<and> row < 8 \<and> col \<ge> 0 \<and> col < 8"

text \<open>
  \<^verbatim>\<open>board[r][c]\<close> as an expression and as an assignment target. Every index the
  source uses lies in \<open>0..7\<close> (see \<open>pseudo_move_ok\<close> below for the generated moves); outside
  that range C++ leaves the access undefined, and the two functions below are then
  only placeholders (the empty piece, no write).
\<close>

definition getp :: "Piece list list \<Rightarrow> int \<Rightarrow> int \<Rightarrow> Piece" where
  "getp b r c = (if isValidPosition r c then b ! nat r ! nat c else emptyPiece)"

definition setp :: "Piece list list \<Rightarrow> int \<Rightarrow> int \<Rightarrow> Piece \<Rightarrow> Piece list list" where
  "setp b r c p = (if isValidPosition r c then b[nat r := (b ! nat r)[nat c := p]] else b)"

definition at :: "GameState \<Rightarrow> int \<Rightarrow> int \<Rightarrow> Piece" where
  "at s r c = getp (board s) r c"

definition put :: "GameState \<Rightarrow> int \<Rightarrow> int \<Rightarrow> Piece \<Rightarrow> GameState" where
  "put s r c p = s\<lparr>board := setp (board s) r c p\<rparr>"

text \<open>The range \<^verbatim>\<open>for (int i = 0; i < 8; i++)\<close>.\<close>

definition idx8 :: "int list" where
  "idx8 = [0, 1, 2, 3, 4, 5, 6, 7]"

text \<open>All squares in the order of the nested loops \<^verbatim>\<open>for r ... for c ...\<close>.\<close>

definition allSquares :: "(int \<times> int) list" where
  "allSquares = concat (map (\<lambda>r. map (\<lambda>c. (r, c)) idx8) idx8)"

section \<open>Initial position\<close>

definition backRank :: "Color \<Rightarrow> Piece list" where
  "backRank col = map (\<lambda>t. \<lparr>type = t, color = col, hasMoved = False\<rparr>)
     [ROOK, KNIGHT, BISHOP, QUEEN, KING, BISHOP, KNIGHT, ROOK]"

definition pawnRank :: "Color \<Rightarrow> Piece list" where
  "pawnRank col = replicate 8 \<lparr>type = PAWN, color = col, hasMoved = False\<rparr>"

text \<open>
  \<^verbatim>\<open>initializeBoard\<close> assigns every member except \<^verbatim>\<open>moveHistory\<close>; the board it
  builds (clear, then rows 0, 1, 7 and 6) is written row by row.
\<close>

definition initializeBoard :: "GameState \<Rightarrow> GameState" where
  "initializeBoard s = s\<lparr>
     board := [backRank BLACK, pawnRank BLACK,
               replicate 8 emptyPiece, replicate 8 emptyPiece,
               replicate 8 emptyPiece, replicate 8 emptyPiece,
               pawnRank WHITE, backRank WHITE],
     currentPlayer := WHITE,
     whiteKingMoved := False, blackKingMoved := False,
     whiteRookAMoved := False, whiteRookHMoved := False,
     blackRookAMoved := False, blackRookHMoved := False,
     enPassantCol := -1, enPassantRow := -1\<rparr>"

text \<open>
  The constructor \<^verbatim>\<open>ChessGame()\<close>: \<^verbatim>\<open>moveHistory\<close> is default-constructed (empty), all
  other members are assigned by \<^verbatim>\<open>initializeBoard\<close>.
\<close>

definition newGame :: GameState where
  "newGame = initializeBoard
     \<lparr>board = [], currentPlayer = NONE,
      whiteKingMoved = False, blackKingMoved = False,
      whiteRookAMoved = False, whiteRookHMoved = False,
      blackRookAMoved = False, blackRookHMoved = False,
      enPassantCol = 0, enPassantRow = 0, moveHistory = []\<rparr>"

text \<open>\<^verbatim>\<open>getPiece\<close>: the encoding \<open>color * 10 + type\<close> handed to the caller.\<close>

fun typeCode :: "PieceType \<Rightarrow> int" where
  "typeCode EMPTY = 0" | "typeCode PAWN = 1" | "typeCode KNIGHT = 2" | "typeCode BISHOP = 3"
| "typeCode ROOK = 4" | "typeCode QUEEN = 5" | "typeCode KING = 6"

fun colorCode :: "Color \<Rightarrow> int" where
  "colorCode NONE = 0" | "colorCode WHITE = 1" | "colorCode BLACK = 2"

definition getPiece :: "GameState \<Rightarrow> int \<Rightarrow> int \<Rightarrow> int" where
  "getPiece s row col =
     (if row < 0 \<or> row \<ge> 8 \<or> col < 0 \<or> col \<ge> 8 then 0
      else let p = at s row col in
        if type p = EMPTY then 0 else colorCode (color p) * 10 + typeCode (type p))"

section \<open>Pseudo-legal move generation\<close>

text \<open>
  \<^verbatim>\<open>getPawnMoves\<close> in three parts: the forward moves, the body of the loop
  \<^verbatim>\<open>for (int dcol : {-1, 1})\<close>, and the function itself.
\<close>

definition pawnForward :: "GameState \<Rightarrow> int \<Rightarrow> int \<Rightarrow> int \<Rightarrow> int \<Rightarrow> Move list" where
  "pawnForward s row col direction startRow =
    (if isValidPosition (row + direction) col \<and> type (at s (row + direction) col) = EMPTY
     then mkMove row col (row + direction) col False False False
            (row + direction = 0 \<or> row + direction = 7) 0
          # (if row = startRow \<and> type (at s (row + 2 * direction) col) = EMPTY
             then [mkMove row col (row + 2 * direction) col False False False False 0]
             else [])
     else [])"

definition pawnCapture :: "GameState \<Rightarrow> Piece \<Rightarrow> int \<Rightarrow> int \<Rightarrow> int \<Rightarrow> int \<Rightarrow> Move list" where
  "pawnCapture s piece row col direction dcol =
    (let newRow = row + direction; newCol = col + dcol in
     if isValidPosition newRow newCol then
       (let target = at s newRow newCol in
         (if type target \<noteq> EMPTY \<and> color target \<noteq> color piece
          then [mkMove row col newRow newCol True False False (newRow = 0 \<or> newRow = 7) 0]
          else [])
         @ (if newCol = enPassantCol s \<and> newRow = enPassantRow s
            then [mkMove row col newRow newCol True False True False 0]
            else []))
     else [])"

definition getPawnMoves :: "GameState \<Rightarrow> int \<Rightarrow> int \<Rightarrow> Move list" where
  "getPawnMoves s row col =
    (let piece = at s row col;
         direction = (if color piece = WHITE then -1 else 1);
         startRow = (if color piece = WHITE then 6 else 1)
     in pawnForward s row col direction startRow
        @ concat (map (pawnCapture s piece row col direction) [-1, 1]))"

definition knightOffsets :: "(int \<times> int) list" where
  "knightOffsets = [(-2,-1),(-2,1),(-1,-2),(-1,2),(1,-2),(1,2),(2,-1),(2,1)]"

text \<open>The loop body shared by \<^verbatim>\<open>getKnightMoves\<close> and the first loop of \<^verbatim>\<open>getKingMoves\<close>.\<close>

definition stepMoves :: "GameState \<Rightarrow> int \<Rightarrow> int \<Rightarrow> (int \<times> int) list \<Rightarrow> Move list" where
  "stepMoves s row col offsets =
    (let piece = at s row col in
     concat (map (\<lambda>offset.
       let newRow = row + fst offset; newCol = col + snd offset in
       if isValidPosition newRow newCol then
         (let target = at s newRow newCol in
          if type target = EMPTY \<or> color target \<noteq> color piece
          then [mkMove row col newRow newCol (type target \<noteq> EMPTY) False False False 0]
          else [])
       else []) offsets))"

definition getKnightMoves :: "GameState \<Rightarrow> int \<Rightarrow> int \<Rightarrow> Move list" where
  "getKnightMoves s row col = stepMoves s row col knightOffsets"

text \<open>
  The inner loop \<^verbatim>\<open>for (dist = 1; dist < 8; dist++)\<close> of \<^verbatim>\<open>getSlidingMoves\<close> with its two
  \<^verbatim>\<open>break\<close>s, as recursion over the remaining distances.
\<close>

fun slideRay :: "GameState \<Rightarrow> Piece \<Rightarrow> int \<Rightarrow> int \<Rightarrow> int \<Rightarrow> int \<Rightarrow> int list \<Rightarrow> Move list" where
  "slideRay s piece row col dr dc [] = []"
| "slideRay s piece row col dr dc (dist # ds) =
    (let newRow = row + dr * dist; newCol = col + dc * dist in
     if \<not> isValidPosition newRow newCol then []
     else let target = at s newRow newCol in
       if type target = EMPTY
       then mkMove row col newRow newCol False False False False 0
              # slideRay s piece row col dr dc ds
       else (if color target \<noteq> color piece
             then [mkMove row col newRow newCol True False False False 0]
             else []))"

definition getSlidingMoves :: "GameState \<Rightarrow> int \<Rightarrow> int \<Rightarrow> (int \<times> int) list \<Rightarrow> Move list" where
  "getSlidingMoves s row col directions =
    (let piece = at s row col in
     concat (map (\<lambda>d. slideRay s piece row col (fst d) (snd d) [1, 2, 3, 4, 5, 6, 7])
       directions))"

definition bishopDirections :: "(int \<times> int) list" where
  "bishopDirections = [(-1,-1),(-1,1),(1,-1),(1,1)]"

definition rookDirections :: "(int \<times> int) list" where
  "rookDirections = [(-1,0),(1,0),(0,-1),(0,1)]"

definition queenDirections :: "(int \<times> int) list" where
  "queenDirections = [(-1,-1),(-1,0),(-1,1),(0,-1),(0,1),(1,-1),(1,0),(1,1)]"

definition getBishopMoves :: "GameState \<Rightarrow> int \<Rightarrow> int \<Rightarrow> Move list" where
  "getBishopMoves s row col = getSlidingMoves s row col bishopDirections"

definition getRookMoves :: "GameState \<Rightarrow> int \<Rightarrow> int \<Rightarrow> Move list" where
  "getRookMoves s row col = getSlidingMoves s row col rookDirections"

definition getQueenMoves :: "GameState \<Rightarrow> int \<Rightarrow> int \<Rightarrow> Move list" where
  "getQueenMoves s row col = getSlidingMoves s row col queenDirections"

text \<open>The castling part of \<^verbatim>\<open>getKingMoves\<close>: flags and empty squares only.\<close>

definition castlingMoves :: "GameState \<Rightarrow> Piece \<Rightarrow> Move list" where
  "castlingMoves s piece =
    (if color piece = WHITE \<and> \<not> whiteKingMoved s then
       (if \<not> whiteRookHMoved s \<and> type (at s 7 5) = EMPTY \<and> type (at s 7 6) = EMPTY
        then [mkMove 7 4 7 6 False True False False 0] else [])
       @ (if \<not> whiteRookAMoved s \<and> type (at s 7 1) = EMPTY \<and> type (at s 7 2) = EMPTY
             \<and> type (at s 7 3) = EMPTY
          then [mkMove 7 4 7 2 False True False False 0] else [])
     else if color piece = BLACK \<and> \<not> blackKingMoved s then
       (if \<not> blackRookHMoved s \<and> type (at s 0 5) = EMPTY \<and> type (at s 0 6) = EMPTY
        then [mkMove 0 4 0 6 False True False False 0] else [])
       @ (if \<not> blackRookAMoved s \<and> type (at s 0 1) = EMPTY \<and> type (at s 0 2) = EMPTY
             \<and> type (at s 0 3) = EMPTY
          then [mkMove 0 4 0 2 False True False False 0] else [])
     else [])"

definition getKingMoves :: "GameState \<Rightarrow> int \<Rightarrow> int \<Rightarrow> Move list" where
  "getKingMoves s row col =
     stepMoves s row col queenDirections @ castlingMoves s (at s row col)"

definition getPseudoLegalMoves :: "GameState \<Rightarrow> int \<Rightarrow> int \<Rightarrow> Move list" where
  "getPseudoLegalMoves s row col =
    (case type (at s row col) of
       PAWN \<Rightarrow> getPawnMoves s row col
     | KNIGHT \<Rightarrow> getKnightMoves s row col
     | BISHOP \<Rightarrow> getBishopMoves s row col
     | ROOK \<Rightarrow> getRookMoves s row col
     | QUEEN \<Rightarrow> getQueenMoves s row col
     | KING \<Rightarrow> getKingMoves s row col
     | EMPTY \<Rightarrow> [])"

section \<open>Attack and check oracle\<close>

text \<open>
  Both loops of \<^verbatim>\<open>isSquareAttacked\<close> only ever leave early with \<^verbatim>\<open>return true\<close>, so the
  function is the disjunction over the squares in loop order.
\<close>

definition isSquareAttacked :: "GameState \<Rightarrow> int \<Rightarrow> int \<Rightarrow> Color \<Rightarrow> bool" where
  "isSquareAttacked s row col attackerColor =
    list_ex (\<lambda>r. list_ex (\<lambda>c.
      let piece = at s r c in
      if type piece \<noteq> EMPTY \<and> color piece = attackerColor then
        (if type piece = PAWN then
           (let direction = (if attackerColor = WHITE then -1 else 1) in
            list_ex (\<lambda>dc. r + direction = row \<and> c + dc = col) [-1, 1])
         else
           list_ex (\<lambda>move. toRow move = row \<and> toCol move = col \<and> \<not> isCastling move)
             (getPseudoLegalMoves s r c))
      else False) idx8) idx8"

text \<open>The search for the king: the first king of the colour in loop order, if any.\<close>

definition findKing :: "GameState \<Rightarrow> Color \<Rightarrow> (int \<times> int) option" where
  "findKing s col =
     find (\<lambda>sq. type (at s (fst sq) (snd sq)) = KING \<and> color (at s (fst sq) (snd sq)) = col)
       allSquares"

definition isInCheck :: "GameState \<Rightarrow> Color \<Rightarrow> bool" where
  "isInCheck s col =
    (case findKing s col of
       None \<Rightarrow> False
     | Some king \<Rightarrow>
         isSquareAttacked s (fst king) (snd king) (if col = WHITE then BLACK else WHITE))"

section \<open>Legality filter\<close>

text \<open>The board as \<^verbatim>\<open>isLegalMove\<close> has it when it calls \<^verbatim>\<open>isInCheck\<close>.\<close>

definition trialApply :: "GameState \<Rightarrow> Move \<Rightarrow> GameState" where
  "trialApply s move =
    (let movingPiece = at s (fromRow move) (fromCol move);
         s1 = put s (toRow move) (toCol move) movingPiece;
         s2 = put s1 (fromRow move) (fromCol move) emptyPiece;
         captureRow = (if color movingPiece = WHITE then toRow move + 1 else toRow move - 1);
         s3 = (if isEnPassant move then put s2 captureRow (toCol move) emptyPiece else s2);
         row = fromRow move;
         rookFromCol = (if toCol move = 6 then 7 else 0);
         rookToCol = (if toCol move = 6 then 5 else 3)
     in if isCastling move
        then put (put s3 row rookToCol (at s3 row rookFromCol)) row rookFromCol emptyPiece
        else s3)"

definition isLegalMove :: "GameState \<Rightarrow> Move \<Rightarrow> bool \<times> GameState" where
  "isLegalMove s move =
    (let tempPiece = at s (toRow move) (toCol move);
         movingPiece = at s (fromRow move) (fromCol move);
         tempEnPassantCol = enPassantCol s;
         tempEnPassantRow = enPassantRow s;
         savedPlayer = currentPlayer s;
         s1 = put s (toRow move) (toCol move) movingPiece;
         s2 = put s1 (fromRow move) (fromCol move) emptyPiece;
         captureRow = (if color movingPiece = WHITE then toRow move + 1 else toRow move - 1);
         capturedPawn = (if isEnPassant move then at s2 captureRow (toCol move) else emptyPiece);
         s3 = (if isEnPassant move then put s2 captureRow (toCol move) emptyPiece else s2);
         row = fromRow move;
         rookFromCol = (if isCastling move then (if toCol move = 6 then 7 else 0) else -1);
         rookToCol = (if isCastling move then (if toCol move = 6 then 5 else 3) else -1);
         savedRook = (if isCastling move then at s3 row rookToCol else emptyPiece);
         s4 = (if isCastling move
               then put (put s3 row rookToCol (at s3 row rookFromCol)) row rookFromCol emptyPiece
               else s3);
         legal = (\<not> isInCheck s4 savedPlayer);
         s5 = put s4 (fromRow move) (fromCol move) movingPiece;
         s6 = put s5 (toRow move) (toCol move) tempPiece;
         s7 = s6\<lparr>enPassantCol := tempEnPassantCol, enPassantRow := tempEnPassantRow,
                 currentPlayer := savedPlayer\<rparr>;
         s8 = (if isEnPassant move then put s7 captureRow (toCol move) capturedPawn else s7);
         s9 = (if isCastling move
               then put (put s8 row rookFromCol (at s8 row rookToCol)) row rookToCol savedRook
               else s8)
     in (legal, s9))"

text \<open>The loop of \<^verbatim>\<open>getLegalMoves\<close> over the pseudo-legal moves, threading the state.\<close>

fun filterLegal :: "GameState \<Rightarrow> Move list \<Rightarrow> Move list \<times> GameState" where
  "filterLegal s [] = ([], s)"
| "filterLegal s (move # rest) =
    (let checked = isLegalMove s move;
         others = filterLegal (snd checked) rest
     in (if fst checked then move # fst others else fst others, snd others))"

definition getLegalMoves :: "GameState \<Rightarrow> int \<Rightarrow> int \<Rightarrow> Move list \<times> GameState" where
  "getLegalMoves s row col =
    (if \<not> isValidPosition row col then ([], s)
     else let piece = at s row col in
       if type piece = EMPTY \<or> color piece \<noteq> currentPlayer s then ([], s)
       else filterLegal s (getPseudoLegalMoves s row col))"

section \<open>Move execution\<close>

text \<open>
  C++ integer division truncates towards zero; the divisor is the literal 2 at both
  uses.
\<close>

definition cdiv :: "int \<Rightarrow> int \<Rightarrow> int" where
  "cdiv a b = (if a < 0 then - ((- a) div b) else a div b)"

text \<open>
  \<^verbatim>\<open>executeMoveInternal\<close>. The source takes the promotion piece as an \<^verbatim>\<open>int\<close> and casts
  it to \<^verbatim>\<open>PieceType\<close>; every caller in the repository passes the enumerator
  \<^verbatim>\<open>QUEEN\<close>, so the parameter is typed \<open>PieceType\<close> here.
\<close>

definition executeMoveInternal :: "GameState \<Rightarrow> Move \<Rightarrow> PieceType \<Rightarrow> GameState" where
  "executeMoveInternal s move promotionPiece =
    (let piece = at s (fromRow move) (fromCol move);
         s1 = (if isEnPassant move
               then put s (if color piece = WHITE then toRow move + 1 else toRow move - 1)
                      (toCol move) emptyPiece
               else s);
         s2 = (if isCastling move then
                 (if toCol move = 6
                  then put (put s1 (fromRow move) 5 (at s1 (fromRow move) 7))
                         (fromRow move) 7 emptyPiece
                  else put (put s1 (fromRow move) 3 (at s1 (fromRow move) 0))
                         (fromRow move) 0 emptyPiece)
               else s1);
         s3 = s2\<lparr>enPassantCol := -1\<rparr>;
         s4 = (if type piece = PAWN \<and> \<bar>fromRow move - toRow move\<bar> = 2
               then s3\<lparr>enPassantCol := fromCol move,
                       enPassantRow := cdiv (fromRow move + toRow move) 2\<rparr>
               else s3);
         s5 = put s4 (toRow move) (toCol move) piece;
         s6 = put s5 (fromRow move) (fromCol move) emptyPiece;
         s7 = put s6 (toRow move) (toCol move)
                ((at s6 (toRow move) (toCol move))\<lparr>hasMoved := True\<rparr>);
         s8 = (if isPromotion move
               then put s7 (toRow move) (toCol move)
                      ((at s7 (toRow move) (toCol move))\<lparr>type := promotionPiece\<rparr>)
               else s7);
         s9 = (if type piece = KING
               then (if color piece = WHITE then s8\<lparr>whiteKingMoved := True\<rparr>
                     else s8\<lparr>blackKingMoved := True\<rparr>)
               else s8);
         s10 = (if type piece = ROOK then
                  (if color piece = WHITE then
                     (let a = (if fromCol move = 0 then s9\<lparr>whiteRookAMoved := True\<rparr> else s9)
                      in (if fromCol move = 7 then a\<lparr>whiteRookHMoved := True\<rparr> else a))
                   else
                     (let a = (if fromCol move = 0 then s9\<lparr>blackRookAMoved := True\<rparr> else s9)
                      in (if fromCol move = 7 then a\<lparr>blackRookHMoved := True\<rparr> else a)))
                else s9)
     in s10\<lparr>currentPlayer := (if currentPlayer s10 = WHITE then BLACK else WHITE)\<rparr>)"

text \<open>\<^verbatim>\<open>makeMove\<close>: the first legal move from the square whose destination matches.\<close>

definition makeMove ::
    "GameState \<Rightarrow> int \<Rightarrow> int \<Rightarrow> int \<Rightarrow> int \<Rightarrow> PieceType \<Rightarrow> bool \<times> GameState" where
  "makeMove s fRow fCol tRow tCol promotionPiece =
    (let legalMoves = getLegalMoves s fRow fCol in
     case find (\<lambda>move. toRow move = tRow \<and> toCol move = tCol) (fst legalMoves) of
       Some move \<Rightarrow> (True, executeMoveInternal (snd legalMoves) move promotionPiece)
     | None \<Rightarrow> (False, snd legalMoves))"

text \<open>
  The boundary function \<^verbatim>\<open>Java_..._makeMove\<close>: the global \<^verbatim>\<open>game\<close> pointer is an
  optional state, and the call passes four coordinates only, so \<^verbatim>\<open>makeMove\<close> runs with
  its default argument \<^verbatim>\<open>promotionPiece = QUEEN\<close>.
\<close>

definition Java_makeMove ::
    "GameState option \<Rightarrow> int \<Rightarrow> int \<Rightarrow> int \<Rightarrow> int \<Rightarrow> bool \<times> GameState option" where
  "Java_makeMove game fRow fCol tRow tCol =
    (case game of
       None \<Rightarrow> (False, None)
     | Some s \<Rightarrow> (let r = makeMove s fRow fCol tRow tCol QUEEN in (fst r, Some (snd r))))"

section \<open>Evaluation\<close>

fun pieceValues :: "PieceType \<Rightarrow> int" where
  "pieceValues EMPTY = 0" | "pieceValues PAWN = 100" | "pieceValues KNIGHT = 320"
| "pieceValues BISHOP = 330" | "pieceValues ROOK = 500" | "pieceValues QUEEN = 900"
| "pieceValues KING = 20000"

definition pawnTable :: "int list list" where
  "pawnTable =
    [[0,  0,  0,  0,  0,  0,  0,  0],
     [50, 50, 50, 50, 50, 50, 50, 50],
     [10, 10, 20, 30, 30, 20, 10, 10],
     [5,  5, 10, 25, 25, 10,  5,  5],
     [0,  0,  0, 20, 20,  0,  0,  0],
     [5, -5,-10,  0,  0,-10, -5,  5],
     [5, 10, 10,-20,-20, 10, 10,  5],
     [0,  0,  0,  0,  0,  0,  0,  0]]"

definition knightTable :: "int list list" where
  "knightTable =
    [[-50,-40,-30,-30,-30,-30,-40,-50],
     [-40,-20,  0,  0,  0,  0,-20,-40],
     [-30,  0, 10, 15, 15, 10,  0,-30],
     [-30,  5, 15, 20, 20, 15,  5,-30],
     [-30,  0, 15, 20, 20, 15,  0,-30],
     [-30,  5, 10, 15, 15, 10,  5,-30],
     [-40,-20,  0,  5,  5,  0,-20,-40],
     [-50,-40,-30,-30,-30,-30,-40,-50]]"

text \<open>A table entry \<^verbatim>\<open>table[r][c]\<close>; the loops keep both indices in \<open>0..7\<close>.\<close>

definition entry :: "int list list \<Rightarrow> int \<Rightarrow> int \<Rightarrow> int" where
  "entry table r c = table ! nat r ! nat c"

text \<open>The contribution of the square \<open>(r, c)\<close> to the score: the body of the inner loop.\<close>

definition squareScore :: "GameState \<Rightarrow> int \<Rightarrow> int \<Rightarrow> int" where
  "squareScore s r c =
    (let piece = at s r c in
     if type piece \<noteq> EMPTY then
       (let value0 = pieceValues (type piece);
            value1 = (if type piece = PAWN
                      then value0 + (if color piece = WHITE then entry pawnTable r c
                                     else entry pawnTable (7 - r) c)
                      else if type piece = KNIGHT
                      then value0 + (if color piece = WHITE then entry knightTable r c
                                     else entry knightTable (7 - r) c)
                      else value0);
            value2 = (if (r \<ge> 3 \<and> r \<le> 4) \<and> (c \<ge> 3 \<and> c \<le> 4) then value1 + 10 else value1)
        in if color piece = WHITE then value2 else - value2)
     else 0)"

definition evaluateBoard :: "GameState \<Rightarrow> int" where
  "evaluateBoard s =
     foldl (\<lambda>score sq. score + squareScore s (fst sq) (snd sq)) 0 allSquares"

section \<open>Search\<close>

text \<open>
  The process-wide generator \<^verbatim>\<open>rng\<close> is not part of the repository's code: it is a
  sequence of raw draws together with the position of the next draw. \<^verbatim>\<open>smallNoise\<close>
  yields a value in \<open>0..2\<close>, \<^verbatim>\<open>coinFlip\<close> a value in \<open>0..1\<close> read as a truth value.
\<close>

type_synonym Rng = "(nat \<Rightarrow> nat) \<times> nat"

definition smallNoise :: "Rng \<Rightarrow> int \<times> Rng" where
  "smallNoise g = (int (fst g (snd g) mod 3), (fst g, Suc (snd g)))"

definition coinFlip :: "Rng \<Rightarrow> bool \<times> Rng" where
  "coinFlip g = (fst g (snd g) mod 2 = 1, (fst g, Suc (snd g)))"

text \<open>
  The loop \<^verbatim>\<open>for r ... for c ... if (board[r][c].color == currentPlayer)\<close> that gathers
  \<^verbatim>\<open>allMoves\<close> in \<^verbatim>\<open>getBestMove\<close> and \<^verbatim>\<open>minimax\<close>.
\<close>

fun collectMoves :: "GameState \<Rightarrow> (int \<times> int) list \<Rightarrow> Move list \<times> GameState" where
  "collectMoves s [] = ([], s)"
| "collectMoves s (sq # rest) =
    (if color (at s (fst sq) (snd sq)) = currentPlayer s then
       (let moves = getLegalMoves s (fst sq) (snd sq);
            others = collectMoves (snd moves) rest
        in (fst moves @ fst others, snd others))
     else collectMoves s rest)"

text \<open>The body of the first loop of \<^verbatim>\<open>getBestMove\<close>: the ordering score of one move.\<close>

definition scoreMove :: "GameState \<Rightarrow> Rng \<Rightarrow> Move \<Rightarrow> Move \<times> GameState \<times> Rng" where
  "scoreMove s g move =
    (let captured = at s (toRow move) (toCol move);
         sc1 = (if type captured \<noteq> EMPTY then 100 else 0);
         sc2 = (if toRow move \<ge> 3 \<and> toRow move \<le> 4 \<and> toCol move \<ge> 3 \<and> toCol move \<le> 4
                then sc1 + 10 else sc1);
         noise = smallNoise g;
         sc3 = sc2 + fst noise;
         tempPiece = at s (toRow move) (toCol move);
         movingPiece = at s (fromRow move) (fromCol move);
         prevPlayer = currentPlayer s;
         savedEnPassantCol = enPassantCol s;
         savedEnPassantRow = enPassantRow s;
         sa = executeMoveInternal s move QUEEN;
         givesCheck = isInCheck sa (if prevPlayer = WHITE then BLACK else WHITE);
         sb = sa\<lparr>currentPlayer := prevPlayer\<rparr>;
         sc = put sb (fromRow move) (fromCol move) movingPiece;
         sd = put sc (toRow move) (toCol move) tempPiece;
         se = sd\<lparr>enPassantCol := savedEnPassantCol, enPassantRow := savedEnPassantRow\<rparr>;
         sf = (if isEnPassant move
               then put se (if prevPlayer = WHITE then toRow move + 1 else toRow move - 1)
                      (toCol move)
                      \<lparr>type = PAWN, color = (if prevPlayer = WHITE then BLACK else WHITE),
                       hasMoved = False\<rparr>
               else se);
         sc4 = (if givesCheck then sc3 + 20 else sc3);
         sc5 = (if type (at sf (fromRow move) (fromCol move)) = PAWN
                then sc4 + cdiv (if currentPlayer sf = WHITE then 7 - toRow move else toRow move) 2
                else sc4);
         sc6 = (if isPromotion move then sc5 + 80 else sc5)
     in (move\<lparr>score := sc6\<rparr>, sf, snd noise))"

fun scoreMoves :: "GameState \<Rightarrow> Rng \<Rightarrow> Move list \<Rightarrow> Move list \<times> GameState \<times> Rng" where
  "scoreMoves s g [] = ([], s, g)"
| "scoreMoves s g (move # rest) =
    (let scored = scoreMove s g move;
         others = scoreMoves (fst (snd scored)) (snd (snd scored)) rest
     in (fst scored # fst others, snd others))"

text \<open>
  The block "save state, \<^verbatim>\<open>executeMoveInternal(move, QUEEN)\<close>, recurse, restore state"
  that the source repeats verbatim in the second loop of \<^verbatim>\<open>getBestMove\<close> and in both
  loops of \<^verbatim>\<open>minimax\<close>; \<open>search\<close> is the recursive call made on the trial position.
\<close>

definition trialSearch ::
    "(GameState \<Rightarrow> int \<times> GameState) \<Rightarrow> GameState \<Rightarrow> Move \<Rightarrow> int \<times> GameState" where
  "trialSearch search s move =
    (let temp = at s (toRow move) (toCol move);
         savedEnPassantCol = enPassantCol s;
         savedEnPassantRow = enPassantRow s;
         prevPlayer = currentPlayer s;
         savedWhiteKing = whiteKingMoved s; savedBlackKing = blackKingMoved s;
         savedWRA = whiteRookAMoved s; savedWRH = whiteRookHMoved s;
         savedBRA = blackRookAMoved s; savedBRH = blackRookHMoved s;
         captureRow = (if prevPlayer = WHITE then toRow move + 1 else toRow move - 1);
         tempEnPassant = (if isEnPassant move then at s captureRow (toCol move) else emptyPiece);
         s1 = executeMoveInternal s move QUEEN;
         result = search s1;
         s2 = snd result;
         s3 = s2\<lparr>currentPlayer := prevPlayer\<rparr>;
         s4 = put s3 (fromRow move) (fromCol move) (at s3 (toRow move) (toCol move));
         s5 = put s4 (toRow move) (toCol move) temp;
         s6 = s5\<lparr>enPassantCol := savedEnPassantCol, enPassantRow := savedEnPassantRow,
                 whiteKingMoved := savedWhiteKing, blackKingMoved := savedBlackKing,
                 whiteRookAMoved := savedWRA, whiteRookHMoved := savedWRH,
                 blackRookAMoved := savedBRA, blackRookHMoved := savedBRH\<rparr>;
         s7 = (if isEnPassant move then put s6 captureRow (toCol move) tempEnPassant else s6)
     in (fst result, s7))"

text \<open>The two loops of \<^verbatim>\<open>minimax\<close>, each with its \<^verbatim>\<open>break\<close> on \<^verbatim>\<open>beta <= alpha\<close>.\<close>

fun maxLoop ::
    "(int \<Rightarrow> int \<Rightarrow> bool \<Rightarrow> GameState \<Rightarrow> int \<times> GameState) \<Rightarrow> GameState \<Rightarrow> int \<Rightarrow> int \<Rightarrow> int
      \<Rightarrow> Move list \<Rightarrow> int \<times> GameState" where
  "maxLoop rec s alpha beta maxEval [] = (maxEval, s)"
| "maxLoop rec s alpha beta maxEval (move # rest) =
    (let trial = trialSearch (rec alpha beta False) s move;
         eval = fst trial; s1 = snd trial;
         maxEval1 = max maxEval eval; alpha1 = max alpha eval
     in if beta \<le> alpha1 then (maxEval1, s1)
        else maxLoop rec s1 alpha1 beta maxEval1 rest)"

fun minLoop ::
    "(int \<Rightarrow> int \<Rightarrow> bool \<Rightarrow> GameState \<Rightarrow> int \<times> GameState) \<Rightarrow> GameState \<Rightarrow> int \<Rightarrow> int \<Rightarrow> int
      \<Rightarrow> Move list \<Rightarrow> int \<times> GameState" where
  "minLoop rec s alpha beta minEval [] = (minEval, s)"
| "minLoop rec s alpha beta minEval (move # rest) =
    (let trial = trialSearch (rec alpha beta True) s move;
         eval = fst trial; s1 = snd trial;
         minEval1 = min minEval eval; beta1 = min beta eval
     in if beta1 \<le> alpha then (minEval1, s1)
        else minLoop rec s1 alpha beta1 minEval1 rest)"

text \<open>
  \<^verbatim>\<open>minimax\<close> for a depth counter that is not negative. The counter only ever
  decreases by one and the recursion stops at \<^verbatim>\<open>depth == 0\<close>, so it is a natural
  number here; a negative counter never meets the base case and is kept out of the
  model (see \<open>getBestMove\<close>).
\<close>

primrec minimax :: "nat \<Rightarrow> int \<Rightarrow> int \<Rightarrow> bool \<Rightarrow> GameState \<Rightarrow> int \<times> GameState" where
  "minimax 0 = (\<lambda>alpha beta maximizing s. (evaluateBoard s, s))"
| "minimax (Suc depth) = (\<lambda>alpha beta maximizing s.
    (let collected = collectMoves s allSquares;
         allMoves = fst collected; s1 = snd collected
     in if allMoves = [] then
          (if isInCheck s1 (currentPlayer s1)
           then ((if maximizing then -999999 else 999999), s1)
           else (0, s1))
        else if maximizing then maxLoop (minimax depth) s1 alpha beta (-999999) allMoves
        else minLoop (minimax depth) s1 alpha beta 999999 allMoves))"

text \<open>The second loop of \<^verbatim>\<open>getBestMove\<close> with its coin-flip tie-break.\<close>

fun searchMoves ::
    "nat \<Rightarrow> GameState \<Rightarrow> Rng \<Rightarrow> Move \<Rightarrow> int \<Rightarrow> Move list \<Rightarrow> Move \<times> GameState \<times> Rng" where
  "searchMoves d s g bestMove bestScore [] = (bestMove, s, g)"
| "searchMoves d s g bestMove bestScore (move # rest) =
    (let prevPlayer = currentPlayer s;
         trial = trialSearch
                   (\<lambda>s1. minimax d (-999999) 999999 (currentPlayer s1 = BLACK) s1) s move;
         sc = fst trial; s7 = snd trial;
         better = (if prevPlayer = WHITE then
                     (if sc > bestScore then (True, g)
                      else if sc = bestScore then coinFlip g else (False, g))
                   else if prevPlayer = BLACK then
                     (if sc < bestScore then (True, g)
                      else if sc = bestScore then coinFlip g else (False, g))
                   else (False, g))
     in if fst better then searchMoves d s7 (snd better) move sc rest
        else searchMoves d s7 (snd better) bestMove bestScore rest)"

text \<open>
  \<^verbatim>\<open>getBestMove\<close>. \<^verbatim>\<open>std::sort\<close> is library code whose order among equal scores is
  not fixed, so the sorting function \<open>srt\<close> is a parameter. The result is \<open>None\<close>
  where the model does not follow the source: for \<open>depth < 1\<close> (the call
  \<^verbatim>\<open>minimax(depth - 1, ...)\<close> then starts below its base case), and for a sorting
  function that loses every element (\<^verbatim>\<open>allMoves[0]\<close> on an empty vector).
\<close>

definition getBestMove ::
    "(Move list \<Rightarrow> Move list) \<Rightarrow> Rng \<Rightarrow> GameState \<Rightarrow> int \<Rightarrow> (Move \<times> GameState \<times> Rng) option" where
  "getBestMove srt g s depth =
    (let collected = collectMoves s allSquares;
         allMoves = fst collected; s1 = snd collected
     in if allMoves = [] then Some (mkMove (-1) (-1) (-1) (-1) False False False False 0, s1, g)
        else if depth < 1 then None
        else (let scored = scoreMoves s1 g allMoves;
                  s2 = fst (snd scored); g2 = snd (snd scored)
              in case srt (fst scored) of
                   [] \<Rightarrow> None
                 | first # others \<Rightarrow>
                     Some (searchMoves (nat (depth - 1)) s2 g2 first
                             (if currentPlayer s2 = WHITE then -999999 else 999999)
                             (first # others))))"

text \<open>A sorting function for concrete runs: insertion sort, larger scores first.\<close>

fun insertByScore :: "Move \<Rightarrow> Move list \<Rightarrow> Move list" where
  "insertByScore m [] = [m]"
| "insertByScore m (x # xs) =
    (if score x < score m then m # x # xs else x # insertByScore m xs)"

definition sortByScore :: "Move list \<Rightarrow> Move list" where
  "sortByScore ms = foldr insertByScore ms []"

text \<open>\<^verbatim>\<open>isGameOver\<close>: true unless some square of the side to move has a legal move.\<close>

fun isGameOverFrom :: "GameState \<Rightarrow> (int \<times> int) list \<Rightarrow> bool \<times> GameState" where
  "isGameOverFrom s [] = (True, s)"
| "isGameOverFrom s (sq # rest) =
    (if color (at s (fst sq) (snd sq)) = currentPlayer s then
       (let moves = getLegalMoves s (fst sq) (snd sq) in
        if fst moves \<noteq> [] then (False, snd moves) else isGameOverFrom (snd moves) rest)
     else isGameOverFrom s rest)"

definition isGameOver :: "GameState \<Rightarrow> bool \<times> GameState" where
  "isGameOver s = isGameOverFrom s allSquares"

section \<open>Predicates used in the statements\<close>

text \<open>The board is an 8 by 8 array, as the declaration \<^verbatim>\<open>Piece board[8][8]\<close> says.\<close>

definition wfBoard :: "Piece list list \<Rightarrow> bool" where
  "wfBoard b \<longleftrightarrow> length b = 8 \<and> list_all (\<lambda>row. length row = 8) b"

text \<open>
  What \<^verbatim>\<open>isLegalMove\<close> relies on to undo a move exactly: both squares are on the
  board; a castling move goes from column 4 to column 6 or 2 of the same row; the pawn
  taken en passant stands beside the origin square, on the destination's column.
\<close>

definition restorable :: "GameState \<Rightarrow> Move \<Rightarrow> bool" where
  "restorable s m \<longleftrightarrow>
     isValidPosition (fromRow m) (fromCol m) \<and> isValidPosition (toRow m) (toCol m) \<and>
     (if isCastling m
      then \<not> isEnPassant m \<and> fromCol m = 4 \<and> toRow m = fromRow m \<and> (toCol m = 6 \<or> toCol m = 2)
      else if isEnPassant m
      then (if color (at s (fromRow m) (fromCol m)) = WHITE then toRow m + 1 else toRow m - 1)
             = fromRow m \<and> toCol m \<noteq> fromCol m
      else True)"

definition okMove :: "GameState \<Rightarrow> int \<Rightarrow> int \<Rightarrow> Move \<Rightarrow> bool" where
  "okMove s row col m \<longleftrightarrow>
     restorable s m \<and> fromRow m = row \<and> fromCol m = col \<and> \<not> isCastling m"

text \<open>The legal moves of all 64 squares, in loop order.\<close>

definition allLegalMoves :: "GameState \<Rightarrow> Move list" where
  "allLegalMoves s = concat (map (\<lambda>sq. fst (getLegalMoves s (fst sq) (snd sq))) allSquares)"

text \<open>A generator whose every draw is 0: no noise, and every coin flip is "no".\<close>

definition zeroRng :: Rng where
  "zeroRng = ((\<lambda>_. 0), 0)"

text \<open>
  A game played through the boundary: each entry \<open>(fromRow, fromCol, toRow, toCol)\<close> is
  one call of \<^verbatim>\<open>makeMove\<close> with the default promotion piece; \<open>None\<close> when a call is
  refused.
\<close>

fun playMoves :: "GameState \<Rightarrow> (int \<times> int \<times> int \<times> int) list \<Rightarrow> GameState option" where
  "playMoves s [] = Some s"
| "playMoves s (mv # rest) =
    (let r = makeMove s (fst mv) (fst (snd mv)) (fst (snd (snd mv))) (snd (snd (snd mv))) QUEEN
     in if fst r then playMoves (snd r) rest else None)"

text \<open>
  What every pawn move satisfies: it starts on the pawn's square, changes the row, and
  either is the en-passant capture onto the stored target or carries the promotion flag
  whenever it ends on row 0 or 7.
\<close>

definition pawnMoveShape :: "GameState \<Rightarrow> int \<Rightarrow> int \<Rightarrow> Move \<Rightarrow> bool" where
  "pawnMoveShape s row col m \<longleftrightarrow>
     fromRow m = row \<and> fromCol m = col \<and> \<not> isCastling m \<and> toRow m \<noteq> row \<and>
     (if isEnPassant m then toRow m = enPassantRow s \<and> toCol m = enPassantCol s
      else if toRow m = 0 \<or> toRow m = 7 then isPromotion m else True)"

text \<open>
  Three games played through the boundary: one that ends with Black giving check while
  White may still castle (e4 e6, d4 a6, Nf3 a5, Be2 Bb4+), one that brings a white pawn
  to \<open>(1, 7)\<close> with the knight on \<open>(0, 6)\<close> to capture (h4 g5, hxg5 h6, gxh6 a6, h7 a5),
  and one after which White may castle on the king's side and the rook on \<open>(7, 7)\<close> may
  capture the pawn on \<open>(1, 7)\<close> (h4 g5, hxg5 a6, Nf3 b6, g3 c6, Bg2 d6).
\<close>

definition checkGame :: "(int \<times> int \<times> int \<times> int) list" where
  "checkGame =
    [(6,4,4,4), (1,4,2,4), (6,3,4,3), (1,0,2,0), (7,6,5,5), (2,0,3,0), (7,5,6,4), (0,5,4,1)]"

definition promotionGame :: "(int \<times> int \<times> int \<times> int) list" where
  "promotionGame =
    [(6,7,4,7), (1,6,3,6), (4,7,3,6), (1,7,2,7), (3,6,2,7), (1,0,2,0), (2,7,1,7), (2,0,3,0)]"

definition rookGame :: "(int \<times> int \<times> int \<times> int) list" where
  "rookGame =
    [(6,7,4,7), (1,6,3,6), (4,7,3,6), (1,0,2,0), (7,6,5,5), (1,1,2,1), (6,6,5,6), (1,2,2,2),
     (7,5,6,6), (1,3,2,3)]"

text \<open>
  A king whose "moved" flag is still clear stands on its home square. The castling
  moves of \<^verbatim>\<open>getKingMoves\<close> are written with the literal origin \<open>(7, 4)\<close> or \<open>(0, 4)\<close>,
  so this is what makes their origin the king's square.
\<close>

definition kingsHome :: "GameState \<Rightarrow> bool" where
  "kingsHome s \<longleftrightarrow>
     list_all (\<lambda>sq. let p = at s (fst sq) (snd sq) in
        if type p = KING \<and> color p = WHITE \<and> \<not> whiteKingMoved s then sq = (7, 4)
        else if type p = KING \<and> color p = BLACK \<and> \<not> blackKingMoved s then sq = (0, 4)
        else True) allSquares"

text \<open>The four coordinates of a move, as the boundary hands them out.\<close>

definition coords :: "Move \<Rightarrow> int \<times> int \<times> int \<times> int" where
  "coords m = (fromRow m, fromCol m, toRow m, toCol m)"

section \<open>Board algebra\<close>

lemma wfBoard_nth: "wfBoard b \<Longrightarrow> i < 8 \<Longrightarrow> length (b ! i) = 8"
  by (simp add: wfBoard_def list_all_length)

lemma wfBoard_setp [simp]: "wfBoard b \<Longrightarrow> wfBoard (setp b r c p)"
proof -
  assume wf: "wfBoard b"
  have "length ((b[nat r := (b ! nat r)[nat c := p]]) ! n) = 8" if "n < 8" for n
    using wf that by (cases "n = nat r") (simp_all add: wfBoard_def list_all_length)
  with wf show ?thesis
    by (simp add: wfBoard_def setp_def list_all_length)
qed

lemma getp_setp:
  "wfBoard b \<Longrightarrow>
   getp (setp b r c p) r' c' =
     (if r' = r \<and> c' = c \<and> isValidPosition r c then p else getp b r' c')"
  by (auto simp: getp_def setp_def isValidPosition_def nth_list_update wfBoard_def list_all_length)

lemma board_ext:
  assumes "wfBoard b" "wfBoard b'"
    and "\<And>r c. isValidPosition r c \<Longrightarrow> getp b r c = getp b' r c"
  shows "b = b'"
proof (rule nth_equalityI)
  show "length b = length b'" using assms(1,2) by (simp add: wfBoard_def)
next
  fix i assume "i < length b"
  then have i: "i < 8" using assms(1) by (simp add: wfBoard_def)
  show "b ! i = b' ! i"
  proof (rule nth_equalityI)
    show "length (b ! i) = length (b' ! i)"
      using wfBoard_nth[OF assms(1) i] wfBoard_nth[OF assms(2) i] by simp
  next
    fix j assume "j < length (b ! i)"
    then have j: "j < 8" using wfBoard_nth[OF assms(1) i] by simp
    have "isValidPosition (int i) (int j)" using i j by (simp add: isValidPosition_def)
    from assms(3)[OF this] show "b ! i ! j = b' ! i ! j"
      using i j by (simp add: getp_def isValidPosition_def)
  qed
qed

lemma board_put [simp]: "board (put s r c p) = setp (board s) r c p"
  by (simp add: put_def)

lemma fields_put [simp]:
  "currentPlayer (put s r c p) = currentPlayer s"
  "whiteKingMoved (put s r c p) = whiteKingMoved s"
  "blackKingMoved (put s r c p) = blackKingMoved s"
  "whiteRookAMoved (put s r c p) = whiteRookAMoved s"
  "whiteRookHMoved (put s r c p) = whiteRookHMoved s"
  "blackRookAMoved (put s r c p) = blackRookAMoved s"
  "blackRookHMoved (put s r c p) = blackRookHMoved s"
  "enPassantCol (put s r c p) = enPassantCol s"
  "enPassantRow (put s r c p) = enPassantRow s"
  "moveHistory (put s r c p) = moveHistory s"
  by (simp_all add: put_def)

lemma at_put:
  "wfBoard (board s) \<Longrightarrow>
   at (put s r c p) r' c' =
     (if r' = r \<and> c' = c \<and> isValidPosition r c then p else at s r' c')"
  by (simp add: at_def getp_setp)

lemma isLegalMove_board:
  assumes wf: "wfBoard (board s)" and ok: "restorable s m"
  shows "board (snd (isLegalMove s m)) = board s"
proof (rule board_ext)
  show "wfBoard (board (snd (isLegalMove s m)))"
    using wf by (simp add: isLegalMove_def Let_def)
  show "wfBoard (board s)" by (rule wf)
  fix r c assume rc: "isValidPosition r c"
  have vf: "isValidPosition (fromRow m) (fromCol m)" and vt: "isValidPosition (toRow m) (toCol m)"
    using ok by (simp_all add: restorable_def)
  show "getp (board (snd (isLegalMove s m))) r c = getp (board s) r c"
  proof (cases "isCastling m")
    case True
    with ok have a: "\<not> isEnPassant m" "fromCol m = 4" "toRow m = fromRow m" "toCol m = 6 \<or> toCol m = 2"
      by (simp_all add: restorable_def)
    have vr: "isValidPosition (fromRow m) 7" "isValidPosition (fromRow m) 5"
       "isValidPosition (fromRow m) 0" "isValidPosition (fromRow m) 3"
      using vf by (simp_all add: isValidPosition_def)
    from a(4) show ?thesis
    proof
      assume "toCol m = 6"
      then show ?thesis using wf True a(1-3) vf vt vr
        by (simp add: isLegalMove_def Let_def getp_setp at_def)
    next
      assume "toCol m = 2"
      then show ?thesis using wf True a(1-3) vf vt vr
        by (simp add: isLegalMove_def Let_def getp_setp at_def)
    qed
  next
    case False
    show ?thesis
    proof (cases "isEnPassant m")
      case True
      with ok False have b: "(if color (at s (fromRow m) (fromCol m)) = WHITE then toRow m + 1 else toRow m - 1) = fromRow m"
          "toCol m \<noteq> fromCol m"
        by (simp_all add: restorable_def)
      have vc: "isValidPosition (fromRow m) (toCol m)"
        using vf vt by (simp add: isValidPosition_def)
      have ne: "fromRow m \<noteq> toRow m"
        using b(1) by (auto split: if_splits)
      show ?thesis using wf True False b vf vt vc ne
        by (simp add: isLegalMove_def Let_def getp_setp at_def)
    next
      case nep: False
      show ?thesis using wf False nep vf vt
        by (simp add: isLegalMove_def Let_def getp_setp at_def)
    qed
  qed
qed

section \<open>Generated moves can be undone\<close>

lemma okMove_plain:
  "okMove s row col (mkMove fr fc tr tc cap False False pr sc) \<longleftrightarrow>
     isValidPosition fr fc \<and> isValidPosition tr tc \<and> fr = row \<and> fc = col"
  by (auto simp: okMove_def restorable_def mkMove_def)

lemma okMove_ep:
  "okMove s row col (mkMove fr fc tr tc cap False True pr sc) \<longleftrightarrow>
     isValidPosition fr fc \<and> isValidPosition tr tc \<and> fr = row \<and> fc = col \<and>
     (if color (at s fr fc) = WHITE then tr + 1 else tr - 1) = fr \<and> tc \<noteq> fc"
  by (auto simp: okMove_def restorable_def mkMove_def)


lemma pawnForward_ok:
  assumes "isValidPosition row col" "startRow = (if direction = -1 then 6 else 1)"
    "direction = 1 \<or> direction = -1"
  shows "list_all (okMove s row col) (pawnForward s row col direction startRow)"
  using assms
  by (auto simp: pawnForward_def okMove_plain isValidPosition_def)

lemma pawnCapture_ok:
  assumes "isValidPosition row col" "piece = at s row col"
    "direction = (if color piece = WHITE then -1 else 1)" "dcol \<noteq> 0"
  shows "list_all (okMove s row col) (pawnCapture s piece row col direction dcol)"
  using assms
  by (simp add: pawnCapture_def Let_def okMove_plain okMove_ep)

lemma pawn_ok:
  assumes "isValidPosition row col"
  shows "list_all (okMove s row col) (getPawnMoves s row col)"
proof -
  let ?piece = "at s row col"
  let ?d = "if color ?piece = WHITE then -1 else (1::int)"
  have f: "list_all (okMove s row col) (pawnForward s row col ?d (if color ?piece = WHITE then 6 else 1))"
    by (rule pawnForward_ok[OF assms]) simp_all
  have c1: "list_all (okMove s row col) (pawnCapture s ?piece row col ?d (-1))"
    by (rule pawnCapture_ok[OF assms]) simp_all
  have c2: "list_all (okMove s row col) (pawnCapture s ?piece row col ?d 1)"
    by (rule pawnCapture_ok[OF assms]) simp_all
  from f c1 c2 show ?thesis
    by (simp add: getPawnMoves_def Let_def)
qed

lemma step_ok:
  assumes "isValidPosition row col"
  shows "list_all (okMove s row col) (stepMoves s row col offs)"
  using assms
  by (induction offs) (simp_all add: stepMoves_def Let_def okMove_plain)

lemma slideRay_ok:
  assumes "isValidPosition row col"
  shows "list_all (okMove s row col) (slideRay s piece row col dr dc ds)"
  using assms
  by (induction ds) (simp_all add: Let_def okMove_plain)

lemma sliding_ok:
  assumes "isValidPosition row col"
  shows "list_all (okMove s row col) (getSlidingMoves s row col dirs)"
  using slideRay_ok[OF assms]
  by (induction dirs) (simp_all add: getSlidingMoves_def Let_def del: slideRay.simps)

lemma castling_ok:
  "list_all (\<lambda>m. restorable s m \<and> isCastling m \<and> fromCol m = 4 \<and>
      fromRow m = (if color piece = WHITE then 7 else 0)) (castlingMoves s piece)"
proof -
  have "restorable s (mkMove 7 4 7 6 False True False False 0)"
       "restorable s (mkMove 7 4 7 2 False True False False 0)"
       "restorable s (mkMove 0 4 0 6 False True False False 0)"
       "restorable s (mkMove 0 4 0 2 False True False False 0)"
    by (simp_all add: restorable_def mkMove_def isValidPosition_def)
  moreover have "isCastling (mkMove a b c d e True f g h)" "fromCol (mkMove a b c d e i f g h) = b"
     "fromRow (mkMove a b c d e i f g h) = a" for a b c d e f g h i
    by (simp_all add: mkMove_def)
  ultimately show ?thesis
    by (simp add: castlingMoves_def)
qed

lemma okMove_restorable: "list_all (okMove s row col) ms \<Longrightarrow> list_all (restorable s) ms"
  by (simp add: list_all_iff okMove_def)

lemma pseudo_all_restorable:
  assumes "isValidPosition row col"
  shows "list_all (restorable s) (getPseudoLegalMoves s row col)"
proof (cases "type (at s row col)")
  case EMPTY then show ?thesis by (simp add: getPseudoLegalMoves_def)
next
  case PAWN then show ?thesis
    using okMove_restorable[OF pawn_ok[OF assms]] by (simp add: getPseudoLegalMoves_def)
next
  case KNIGHT then show ?thesis
    using okMove_restorable[OF step_ok[OF assms]]
    by (simp add: getPseudoLegalMoves_def getKnightMoves_def)
next
  case BISHOP then show ?thesis
    using okMove_restorable[OF sliding_ok[OF assms]]
    by (simp add: getPseudoLegalMoves_def getBishopMoves_def)
next
  case ROOK then show ?thesis
    using okMove_restorable[OF sliding_ok[OF assms]]
    by (simp add: getPseudoLegalMoves_def getRookMoves_def)
next
  case QUEEN then show ?thesis
    using okMove_restorable[OF sliding_ok[OF assms]]
    by (simp add: getPseudoLegalMoves_def getQueenMoves_def)
next
  case KING
  have "list_all (restorable s) (castlingMoves s (at s row col))"
    using castling_ok[of s "at s row col"] by (simp add: list_all_iff)
  with KING show ?thesis
    using okMove_restorable[OF step_ok[OF assms]]
    by (simp add: getPseudoLegalMoves_def getKingMoves_def)
qed

lemma pseudo_move_ok:
  assumes "isValidPosition row col" "m \<in> set (getPseudoLegalMoves s row col)"
  shows "restorable s m"
  using pseudo_all_restorable[OF assms(1), of s] assms(2) by (simp add: list_all_iff)

lemma isLegalMove_frame:
  assumes "wfBoard (board s)" "restorable s m"
  shows "snd (isLegalMove s m) = s"
proof -
  have b: "board (snd (isLegalMove s m)) = board s"
    by (rule isLegalMove_board[OF assms])
  have "currentPlayer (snd (isLegalMove s m)) = currentPlayer s"
    "whiteKingMoved (snd (isLegalMove s m)) = whiteKingMoved s"
    "blackKingMoved (snd (isLegalMove s m)) = blackKingMoved s"
    "whiteRookAMoved (snd (isLegalMove s m)) = whiteRookAMoved s"
    "whiteRookHMoved (snd (isLegalMove s m)) = whiteRookHMoved s"
    "blackRookAMoved (snd (isLegalMove s m)) = blackRookAMoved s"
    "blackRookHMoved (snd (isLegalMove s m)) = blackRookHMoved s"
    "enPassantCol (snd (isLegalMove s m)) = enPassantCol s"
    "enPassantRow (snd (isLegalMove s m)) = enPassantRow s"
    "moveHistory (snd (isLegalMove s m)) = moveHistory s"
    "GameState.more (snd (isLegalMove s m)) = GameState.more s"
    by (simp_all add: isLegalMove_def Let_def put_def)
  with b show ?thesis by (intro GameState.equality) simp_all
qed

lemma isLegalMove_result:
  "fst (isLegalMove s m) = (\<not> isInCheck (trialApply s m) (currentPlayer s))"
  by (simp add: isLegalMove_def trialApply_def Let_def)

lemma filterLegal_frame:
  assumes "wfBoard (board s)" "list_all (restorable s) ms"
  shows "filterLegal s ms = (filter (\<lambda>m. fst (isLegalMove s m)) ms, s)"
  using assms
  by (induction ms) (simp_all add: Let_def isLegalMove_frame)

lemma getLegalMoves_frame:
  assumes "wfBoard (board s)"
  shows "snd (getLegalMoves s row col) = s"
  using assms pseudo_all_restorable
  by (simp add: getLegalMoves_def Let_def filterLegal_frame)

lemma getLegalMoves_eq:
  assumes "wfBoard (board s)"
  shows "fst (getLegalMoves s row col) =
    (if isValidPosition row col \<and> type (at s row col) \<noteq> EMPTY \<and> color (at s row col) = currentPlayer s
     then filter (\<lambda>m. fst (isLegalMove s m)) (getPseudoLegalMoves s row col) else [])"
  using assms pseudo_all_restorable
  by (simp add: getLegalMoves_def Let_def filterLegal_frame)

section \<open>The legality check restores the state\<close>

text \<open>
  Claim C2. For a state with an 8 by 8 board, a square on the board and any move the
  pseudo-legal generator produces for that square, \<^verbatim>\<open>isLegalMove\<close> returns its
  boolean and leaves the whole state (every field of the record) equal to the state
  before the call; the boolean is false exactly when \<^verbatim>\<open>isInCheck\<close> holds, on the
  board of the trial application, for the side that was to move (\<^verbatim>\<open>savedPlayer\<close>, the
  moving side for every move \<^verbatim>\<open>getLegalMoves\<close> passes in).
\<close>

theorem isLegalMove_restores_state:
  assumes "wfBoard (board s)" "isValidPosition row col"
    "move \<in> set (getPseudoLegalMoves s row col)"
  shows "snd (isLegalMove s move) = s \<and>
         (fst (isLegalMove s move) = False \<longleftrightarrow>
            isInCheck (trialApply s move) (currentPlayer s))"
  using isLegalMove_frame[OF assms(1) pseudo_move_ok[OF assms(2,3)]]
  by (simp add: isLegalMove_result)

theorem isLegalMove_restores_state_witness:
  "wfBoard (board newGame) \<and> isValidPosition 6 4 \<and>
   mkMove 6 4 4 4 False False False False 0 \<in> set (getPseudoLegalMoves newGame 6 4) \<and>
   snd (isLegalMove newGame (mkMove 6 4 4 4 False False False False 0)) = newGame \<and>
   fst (isLegalMove newGame (mkMove 6 4 4 4 False False False False 0)) = True"
proof -
  have h1: "wfBoard (board newGame)" by code_simp
  have h2: "isValidPosition 6 4" by code_simp
  have h3: "mkMove 6 4 4 4 False False False False 0 \<in> set (getPseudoLegalMoves newGame 6 4)"
    by code_simp
  have h4: "\<not> isInCheck (trialApply newGame (mkMove 6 4 4 4 False False False False 0))
              (currentPlayer newGame)"
    by code_simp
  from isLegalMove_restores_state[OF h1 h2 h3] h1 h2 h3 h4 show ?thesis by simp
qed

section \<open>Committing a move\<close>

text \<open>
  Claim C5. On a state with an 8 by 8 board and for any four coordinates (on or off
  the board), \<^verbatim>\<open>makeMove\<close> returns true exactly when the legal-move list generated
  from the from-square holds a move whose destination is the to-square; when it returns
  false the state is the state before the call.
\<close>

theorem makeMove_iff_legal:
  assumes "wfBoard (board s)"
  shows "fst (makeMove s fRow fCol tRow tCol promotionPiece) =
           (\<exists>m \<in> set (fst (getLegalMoves s fRow fCol)). toRow m = tRow \<and> toCol m = tCol) \<and>
         (\<not> fst (makeMove s fRow fCol tRow tCol promotionPiece) \<longrightarrow>
            snd (makeMove s fRow fCol tRow tCol promotionPiece) = s)"
proof (cases "find (\<lambda>move. toRow move = tRow \<and> toCol move = tCol) (fst (getLegalMoves s fRow fCol))")
  case None
  then have mk: "makeMove s fRow fCol tRow tCol promotionPiece = (False, snd (getLegalMoves s fRow fCol))"
    by (simp add: makeMove_def Let_def)
  from None have "\<not> (\<exists>m \<in> set (fst (getLegalMoves s fRow fCol)). toRow m = tRow \<and> toCol m = tCol)"
    by (simp add: find_None_iff)
  with mk show ?thesis
    using getLegalMoves_frame[OF assms, of fRow fCol] by simp
next
  case (Some m)
  then have mk: "makeMove s fRow fCol tRow tCol promotionPiece =
      (True, executeMoveInternal (snd (getLegalMoves s fRow fCol)) m promotionPiece)"
    by (simp add: makeMove_def Let_def)
  from Some have "m \<in> set (fst (getLegalMoves s fRow fCol))" "toRow m = tRow \<and> toCol m = tCol"
    by (auto simp: find_Some_iff)
  with mk show ?thesis by auto
qed

theorem makeMove_iff_legal_witness:
  "wfBoard (board newGame) \<and>
   fst (makeMove newGame 6 4 3 4 QUEEN) = False \<and>
   snd (makeMove newGame 6 4 3 4 QUEEN) = newGame \<and>
   fst (makeMove newGame 6 4 4 4 QUEEN) = True"
proof -
  have h1: "wfBoard (board newGame)" by code_simp
  have h2: "\<not> (\<exists>m \<in> set (fst (getLegalMoves newGame 6 4)). toRow m = 3 \<and> toCol m = 4)"
    by code_simp
  have h3: "\<exists>m \<in> set (fst (getLegalMoves newGame 6 4)). toRow m = 4 \<and> toCol m = 4"
    by code_simp
  from makeMove_iff_legal[OF h1, of 6 4 3 4 QUEEN] makeMove_iff_legal[OF h1, of 6 4 4 4 QUEEN]
    h1 h2 h3 show ?thesis by simp
qed

section \<open>The attack oracle reads the board only\<close>

lemma at_board_cong: "board s = board s' \<Longrightarrow> at s = at s'"
  by (intro ext) (simp add: at_def)

lemma stepMoves_board_cong:
  "board s = board s' \<Longrightarrow> stepMoves s row col offs = stepMoves s' row col offs"
  by (simp add: stepMoves_def Let_def at_board_cong[of s s'] cong: if_cong)

lemma slideRay_board_cong:
  "board s = board s' \<Longrightarrow>
   slideRay s piece row col dr dc ds = slideRay s' piece row col dr dc ds"
  by (induction ds) (simp_all add: Let_def at_board_cong[of s s'] cong: if_cong)

lemma getSlidingMoves_board_cong:
  "board s = board s' \<Longrightarrow> getSlidingMoves s row col dirs = getSlidingMoves s' row col dirs"
  using slideRay_board_cong[of s s']
  by (simp add: getSlidingMoves_def Let_def at_board_cong[of s s'] del: slideRay.simps cong: if_cong)

lemma castling_never_counts:
  "list_ex (\<lambda>move. toRow move = row \<and> toCol move = col \<and> \<not> isCastling move)
     (castlingMoves s piece) = False"
  using castling_ok[of s piece] by (auto simp: list_all_iff list_ex_iff)

lemma targets_board_cong:
  assumes "board s = board s'" "type (at s r c) \<noteq> PAWN"
  shows "list_ex (\<lambda>move. toRow move = row \<and> toCol move = col \<and> \<not> isCastling move)
           (getPseudoLegalMoves s r c) =
         list_ex (\<lambda>move. toRow move = row \<and> toCol move = col \<and> \<not> isCastling move)
           (getPseudoLegalMoves s' r c)"
proof -
  have a: "at s' r c = at s r c" using at_board_cong[OF assms(1)] by simp
  show ?thesis
  proof (cases "type (at s r c)")
    case KING
    then show ?thesis
      using castling_never_counts[of row col s] castling_never_counts[of row col s']
        stepMoves_board_cong[OF assms(1)] a
      by (simp add: getPseudoLegalMoves_def getKingMoves_def)
  qed (use assms a stepMoves_board_cong[OF assms(1)] getSlidingMoves_board_cong[OF assms(1)] in
        \<open>simp_all add: getPseudoLegalMoves_def getKnightMoves_def getBishopMoves_def
            getRookMoves_def getQueenMoves_def\<close>)
qed

lemma isSquareAttacked_board_cong:
  assumes "board s = board s'"
  shows "isSquareAttacked s row col a = isSquareAttacked s' row col a"
proof -
  have "(let piece = at s r c in
          if type piece \<noteq> EMPTY \<and> color piece = a then
            (if type piece = PAWN then
               (let direction = (if a = WHITE then -1 else 1) in
                list_ex (\<lambda>dc. r + direction = row \<and> c + dc = col) [-1, 1])
             else list_ex (\<lambda>move. toRow move = row \<and> toCol move = col \<and> \<not> isCastling move)
                   (getPseudoLegalMoves s r c))
          else False) =
        (let piece = at s' r c in
          if type piece \<noteq> EMPTY \<and> color piece = a then
            (if type piece = PAWN then
               (let direction = (if a = WHITE then -1 else 1) in
                list_ex (\<lambda>dc. r + direction = row \<and> c + dc = col) [-1, 1])
             else list_ex (\<lambda>move. toRow move = row \<and> toCol move = col \<and> \<not> isCastling move)
                   (getPseudoLegalMoves s' r c))
          else False)" for r c
    using targets_board_cong[OF assms, of r c row col] at_board_cong[OF assms]
    by (simp add: Let_def cong: if_cong)
  then show ?thesis
    unfolding isSquareAttacked_def by simp
qed

lemma findKing_board_cong: "board s = board s' \<Longrightarrow> findKing s c = findKing s' c"
  by (simp add: findKing_def at_board_cong[of s s'])

text \<open>
  Claim C10. \<^verbatim>\<open>isSquareAttacked\<close> and \<^verbatim>\<open>isInCheck\<close> contain no assignment to a member
  of the game, so they are functions from the state to a boolean: they return a value
  for every state, square and colour, and there is no state after the call that could
  differ. Their result is determined by the board alone: two states with equal boards,
  and so two equal states, give equal results, whatever the side to move, the castling
  flags, the en-passant target and the history are.
\<close>

theorem attack_queries_read_board_only:
  assumes "board s = board s'"
  shows "isSquareAttacked s row col attackerColor = isSquareAttacked s' row col attackerColor \<and>
         isInCheck s c = isInCheck s' c"
  using isSquareAttacked_board_cong[OF assms] findKing_board_cong[OF assms]
  by (simp add: isInCheck_def split: option.split)

theorem attack_queries_read_board_only_witness:
  "board newGame =
     board (newGame\<lparr>currentPlayer := BLACK, whiteKingMoved := True, enPassantCol := 3,
                    enPassantRow := 5\<rparr>) \<and>
   isSquareAttacked
     (newGame\<lparr>currentPlayer := BLACK, whiteKingMoved := True, enPassantCol := 3,
               enPassantRow := 5\<rparr>) 5 0 WHITE = True \<and>
   isInCheck
     (newGame\<lparr>currentPlayer := BLACK, whiteKingMoved := True, enPassantCol := 3,
               enPassantRow := 5\<rparr>) BLACK = False"
proof -
  have h: "board newGame =
     board (newGame\<lparr>currentPlayer := BLACK, whiteKingMoved := True, enPassantCol := 3,
                    enPassantRow := 5\<rparr>)"
    by simp
  have e1: "isSquareAttacked newGame 5 0 WHITE" by code_simp
  have e2: "\<not> isInCheck newGame BLACK" by code_simp
  from attack_queries_read_board_only[OF h, of 5 0 WHITE BLACK] h e1 e2
  show ?thesis by simp
qed

section \<open>Promotion through the boundary\<close>

lemma pawnMoveShape_mk:
  "pawnMoveShape s row col (mkMove fr fc tr tc cap False ep pr sc) \<longleftrightarrow>
     fr = row \<and> fc = col \<and> tr \<noteq> row \<and>
     (if ep then tr = enPassantRow s \<and> tc = enPassantCol s
      else if tr = 0 \<or> tr = 7 then pr else True)"
  by (simp add: pawnMoveShape_def mkMove_def)

lemma pawnForward_shape:
  assumes "(direction = -1 \<and> startRow = 6) \<or> (direction = 1 \<and> startRow = 1)"
  shows "list_all (pawnMoveShape s row col) (pawnForward s row col direction startRow)"
  using assms
proof
  assume "direction = -1 \<and> startRow = 6"
  then show ?thesis by (simp add: pawnForward_def pawnMoveShape_mk)
next
  assume "direction = 1 \<and> startRow = 1"
  then show ?thesis by (simp add: pawnForward_def pawnMoveShape_mk)
qed

lemma pawnCapture_shape:
  assumes "direction \<noteq> 0"
  shows "list_all (pawnMoveShape s row col) (pawnCapture s piece row col direction dcol)"
  using assms
  by (simp add: pawnCapture_def Let_def pawnMoveShape_mk)

lemma pawn_shape: "list_all (pawnMoveShape s row col) (getPawnMoves s row col)"
proof -
  let ?piece = "at s row col"
  let ?d = "if color ?piece = WHITE then -1 else (1::int)"
  have f: "list_all (pawnMoveShape s row col)
             (pawnForward s row col ?d (if color ?piece = WHITE then 6 else 1))"
    by (rule pawnForward_shape) simp
  have c: "list_all (pawnMoveShape s row col) (pawnCapture s ?piece row col ?d dcol)" for dcol
    by (rule pawnCapture_shape) simp
  from f c show ?thesis
    by (simp add: getPawnMoves_def Let_def)
qed

lemma executeMoveInternal_promotes:
  assumes "wfBoard (board s)"
    "isValidPosition (fromRow m) (fromCol m)" "isValidPosition (toRow m) (toCol m)"
    "toRow m \<noteq> fromRow m" "\<not> isCastling m" "\<not> isEnPassant m" "isPromotion m"
  shows "at (executeMoveInternal s m promotionPiece) (toRow m) (toCol m) =
           (at s (fromRow m) (fromCol m))\<lparr>hasMoved := True, type := promotionPiece\<rparr>"
  using assms
  by (simp add: executeMoveInternal_def Let_def at_def put_def getp_setp)

text \<open>
  Claim C9. The boundary function takes four coordinates and no promotion piece. On a
  state with an 8 by 8 board, when it commits a move of a pawn to row 0 or 7 (other
  than onto the stored en-passant target, which \<^verbatim>\<open>executeMoveInternal\<close> only ever sets
  to row 2 or 5 after a legal double step), the destination square afterwards holds a
  queen of the pawn's colour, and that colour is the side that was to move.
\<close>

theorem boundary_promotion_is_queen:
  assumes wf: "wfBoard (board s)"
    and call: "Java_makeMove (Some s) fRow fCol tRow tCol = (True, Some s')"
    and pawn: "type (at s fRow fCol) = PAWN"
    and last: "tRow = 0 \<or> tRow = 7"
    and notEp: "\<not> (tRow = enPassantRow s \<and> tCol = enPassantCol s)"
  shows "type (at s' tRow tCol) = QUEEN \<and>
         color (at s' tRow tCol) = color (at s fRow fCol) \<and>
         color (at s fRow fCol) = currentPlayer s"
proof -
  let ?legal = "fst (getLegalMoves s fRow fCol)"
  have fr: "snd (getLegalMoves s fRow fCol) = s" by (rule getLegalMoves_frame[OF wf])
  obtain m where found: "find (\<lambda>move. toRow move = tRow \<and> toCol move = tCol) ?legal = Some m"
    using call by (cases "find (\<lambda>move. toRow move = tRow \<and> toCol move = tCol) ?legal")
      (simp_all add: Java_makeMove_def makeMove_def Let_def)
  then have s': "s' = executeMoveInternal s m QUEEN"
    using call fr by (simp add: Java_makeMove_def makeMove_def Let_def)
  from found have mem: "m \<in> set ?legal" and to: "toRow m = tRow" "toCol m = tCol"
    by (auto simp: find_Some_iff)
  from mem have guard: "isValidPosition fRow fCol" "color (at s fRow fCol) = currentPlayer s"
    and pm: "m \<in> set (getPseudoLegalMoves s fRow fCol)"
    using getLegalMoves_eq[OF wf, of fRow fCol] by (auto split: if_splits)
  from pm pawn have gm: "m \<in> set (getPawnMoves s fRow fCol)"
    by (simp add: getPseudoLegalMoves_def)
  from gm pawn_shape[of s fRow fCol] have shape: "pawnMoveShape s fRow fCol m"
    by (simp add: list_all_iff)
  from gm pawn_ok[OF guard(1), of s] have ok: "okMove s fRow fCol m"
    by (simp add: list_all_iff)
  from shape to notEp last have flags: "\<not> isEnPassant m" "isPromotion m" "\<not> isCastling m"
      "fromRow m = fRow" "fromCol m = fCol" "toRow m \<noteq> fromRow m"
    by (auto simp: pawnMoveShape_def split: if_splits)
  from ok have valid: "isValidPosition (fromRow m) (fromCol m)" "isValidPosition (toRow m) (toCol m)"
    unfolding okMove_def restorable_def by blast+
  have "at s' (toRow m) (toCol m) = (at s (fromRow m) (fromCol m))\<lparr>hasMoved := True, type := QUEEN\<rparr>"
    unfolding s' by (rule executeMoveInternal_promotes[OF wf valid flags(6,3,1,2)])
  with to flags guard show ?thesis by simp
qed

theorem boundary_promotion_is_queen_witness:
  "(let s = the (playMoves newGame promotionGame);
        r = Java_makeMove (Some s) 1 7 0 6
    in wfBoard (board s) \<and> r = (True, Some (the (snd r))) \<and>
       type (at s 1 7) = PAWN \<and> currentPlayer s = WHITE \<and>
       type (at (the (snd r)) 0 6) = QUEEN \<and> color (at (the (snd r)) 0 6) = WHITE)"
proof -
  define s where "s = the (playMoves newGame promotionGame)"
  define r where "r = Java_makeMove (Some s) 1 7 0 6"
  have ev: "(let s = the (playMoves newGame promotionGame);
        r = Java_makeMove (Some s) 1 7 0 6
    in wfBoard (board s) \<and> fst r \<and> snd r \<noteq> None \<and> type (at s 1 7) = PAWN \<and>
       currentPlayer s = WHITE \<and> enPassantRow s \<noteq> 0)"
    by code_simp
  then have h: "wfBoard (board s)" "fst r" "snd r \<noteq> None" "type (at s 1 7) = PAWN"
      "currentPlayer s = WHITE" "enPassantRow s \<noteq> 0"
    unfolding Let_def s_def r_def by blast+
  from h(2,3) have call: "Java_makeMove (Some s) 1 7 0 6 = (True, Some (the (snd r)))"
    unfolding r_def[symmetric] by (cases r) auto
  have "type (at (the (snd r)) 0 6) = QUEEN \<and> color (at (the (snd r)) 0 6) = color (at s 1 7) \<and>
      color (at s 1 7) = currentPlayer s"
    using h(6) by (intro boundary_promotion_is_queen[OF h(1) call h(4)]) simp_all
  with h call show ?thesis
    unfolding Let_def s_def[symmetric] r_def[symmetric] by simp
qed

section \<open>The move the search returns\<close>

lemma set_allSquares: "(r, c) \<in> set allSquares \<longleftrightarrow> isValidPosition r c"
proof -
  have "x \<in> set idx8 \<longleftrightarrow> 0 \<le> x \<and> x < 8" for x
    by (simp add: idx8_def) presburger
  then show ?thesis
    by (auto simp: allSquares_def isValidPosition_def)
qed

lemma collectMoves_eq:
  assumes "wfBoard (board s)"
  shows "collectMoves s sqs =
           (concat (map (\<lambda>sq. fst (getLegalMoves s (fst sq) (snd sq))) sqs), s)"
proof (induction sqs)
  case Nil
  show ?case by simp
next
  case (Cons sq sqs)
  show ?case
  proof (cases "color (at s (fst sq) (snd sq)) = currentPlayer s")
    case True
    then show ?thesis
      using Cons getLegalMoves_frame[OF assms, of "fst sq" "snd sq"]
      by (simp add: Let_def)
  next
    case False
    then have "fst (getLegalMoves s (fst sq) (snd sq)) = []"
      using getLegalMoves_eq[OF assms, of "fst sq" "snd sq"] by simp
    with False Cons show ?thesis by simp
  qed
qed

lemma collectMoves_all:
  "wfBoard (board s) \<Longrightarrow> collectMoves s allSquares = (allLegalMoves s, s)"
  by (simp add: collectMoves_eq allLegalMoves_def)

lemma scoreMove_coords: "coords (fst (scoreMove s g m)) = coords m"
  by (simp add: scoreMove_def Let_def coords_def)

lemma scoreMoves_coords: "map coords (fst (scoreMoves s g ms)) = map coords ms"
  by (induction ms arbitrary: s g) (simp_all add: Let_def scoreMove_coords)

lemma searchMoves_member:
  "fst (searchMoves d s g best bestScore ms) \<in> insert best (set ms)"
proof (induction ms arbitrary: s g best bestScore)
  case Nil
  show ?case by simp
next
  case (Cons m ms)
  show ?case
    using Cons[of _ _ m] Cons[of _ _ best]
    by (simp add: Let_def del: minimax.simps) blast
qed

lemma castling_origin:
  assumes "m \<in> set (castlingMoves s piece)"
  shows "(color piece = WHITE \<and> \<not> whiteKingMoved s \<and> fromRow m = 7 \<and> fromCol m = 4) \<or>
         (color piece = BLACK \<and> \<not> blackKingMoved s \<and> fromRow m = 0 \<and> fromCol m = 4)"
proof -
  have o: "fromRow m = (if color piece = WHITE then 7 else 0)" "fromCol m = 4"
    using castling_ok[of s piece] assms by (simp_all add: list_all_iff)
  have "castlingMoves s piece \<noteq> []" using assms by auto
  then have "(color piece = WHITE \<and> \<not> whiteKingMoved s) \<or>
             (color piece = BLACK \<and> \<not> blackKingMoved s)"
    by (auto simp: castlingMoves_def split: if_splits)
  with o show ?thesis by auto
qed

lemma kingsHome_square:
  assumes "kingsHome s" "isValidPosition r c" "type (at s r c) = KING"
  shows "(color (at s r c) = WHITE \<and> \<not> whiteKingMoved s \<longrightarrow> r = 7 \<and> c = 4) \<and>
         (color (at s r c) = BLACK \<and> \<not> blackKingMoved s \<longrightarrow> r = 0 \<and> c = 4)"
proof -
  from assms(2) have "(r, c) \<in> set allSquares" by (simp add: set_allSquares)
  with assms(1) have
    "(let p = at s r c in
        if type p = KING \<and> color p = WHITE \<and> \<not> whiteKingMoved s then (r, c) = (7, 4)
        else if type p = KING \<and> color p = BLACK \<and> \<not> blackKingMoved s then (r, c) = (0, 4)
        else True)"
    unfolding kingsHome_def list_all_iff by fastforce
  with assms(3) show ?thesis by (auto simp: Let_def split: if_splits)
qed

lemma pseudo_origin:
  assumes "kingsHome s" "isValidPosition r c" "m \<in> set (getPseudoLegalMoves s r c)"
  shows "fromRow m = r \<and> fromCol m = c"
proof (cases "type (at s r c)")
  case EMPTY with assms(3) show ?thesis by (simp add: getPseudoLegalMoves_def)
next
  case PAWN with assms(3) pawn_ok[OF assms(2), of s] show ?thesis
    by (auto simp: getPseudoLegalMoves_def list_all_iff okMove_def)
next
  case KNIGHT with assms(3) step_ok[OF assms(2), of s] show ?thesis
    by (auto simp: getPseudoLegalMoves_def getKnightMoves_def list_all_iff okMove_def)
next
  case BISHOP with assms(3) sliding_ok[OF assms(2), of s] show ?thesis
    by (auto simp: getPseudoLegalMoves_def getBishopMoves_def list_all_iff okMove_def)
next
  case ROOK with assms(3) sliding_ok[OF assms(2), of s] show ?thesis
    by (auto simp: getPseudoLegalMoves_def getRookMoves_def list_all_iff okMove_def)
next
  case QUEEN with assms(3) sliding_ok[OF assms(2), of s] show ?thesis
    by (auto simp: getPseudoLegalMoves_def getQueenMoves_def list_all_iff okMove_def)
next
  case KING
  with assms(3) have "m \<in> set (stepMoves s r c queenDirections) \<or>
                      m \<in> set (castlingMoves s (at s r c))"
    by (simp add: getPseudoLegalMoves_def getKingMoves_def)
  then show ?thesis
  proof
    assume "m \<in> set (stepMoves s r c queenDirections)"
    with step_ok[OF assms(2), of s] show ?thesis by (auto simp: list_all_iff okMove_def)
  next
    assume "m \<in> set (castlingMoves s (at s r c))"
    from castling_origin[OF this] kingsHome_square[OF assms(1,2) KING]
    show ?thesis by auto
  qed
qed

lemma legal_origin:
  assumes "wfBoard (board s)" "kingsHome s" "m \<in> set (fst (getLegalMoves s r c))"
  shows "fromRow m = r \<and> fromCol m = c \<and> isValidPosition r c"
proof -
  from assms(3) have v: "isValidPosition r c" and "m \<in> set (getPseudoLegalMoves s r c)"
    using getLegalMoves_eq[OF assms(1), of r c] by (auto split: if_splits)
  with pseudo_origin[OF assms(2)] show ?thesis by simp
qed

lemma allLegalMoves_member:
  "m \<in> set (allLegalMoves s) \<longleftrightarrow>
     (\<exists>r c. isValidPosition r c \<and> m \<in> set (fst (getLegalMoves s r c)))"
proof
  assume "m \<in> set (allLegalMoves s)"
  then obtain sq where sq: "sq \<in> set allSquares" "m \<in> set (fst (getLegalMoves s (fst sq) (snd sq)))"
    by (auto simp: allLegalMoves_def)
  from sq(1) have "(fst sq, snd sq) \<in> set allSquares" by simp
  then have "isValidPosition (fst sq) (snd sq)" by (simp only: set_allSquares)
  with sq(2) show "\<exists>r c. isValidPosition r c \<and> m \<in> set (fst (getLegalMoves s r c))" by blast
next
  assume "\<exists>r c. isValidPosition r c \<and> m \<in> set (fst (getLegalMoves s r c))"
  then obtain r c where rc: "isValidPosition r c" "m \<in> set (fst (getLegalMoves s r c))" by blast
  from rc(1) have "(r, c) \<in> set allSquares" by (simp only: set_allSquares)
  with rc(2) show "m \<in> set (allLegalMoves s)"
    by (auto simp: allLegalMoves_def intro!: bexI[of _ "(r, c)"])
qed

text \<open>
  What holds of the returned move is legality in the state at the moment of the call.
  On a state with an 8 by 8 board whose unmoved kings stand on their home squares, for
  every depth of at least 1, every random source and every sorting function that keeps
  the set of moves, \<^verbatim>\<open>getBestMove\<close> returns; the move it returns has all four
  coordinates \<open>-1\<close> exactly when no square had a legal move; otherwise its destination
  is the destination of a move in the legal-move list that the state before the call
  generates for its from-square. The state \<open>s'\<close> after the call is another matter: see
  the last section.
\<close>

lemma getBestMove_legal_at_call:
  assumes wf: "wfBoard (board s)" and home: "kingsHome s" and depth: "1 \<le> depth"
    and perm: "\<And>ms. set (srt ms) = set ms"
  shows "\<exists>mv s' g'. getBestMove srt g s depth = Some (mv, s', g') \<and>
           (coords mv = (-1, -1, -1, -1) \<longleftrightarrow> allLegalMoves s = []) \<and>
           (allLegalMoves s \<noteq> [] \<longrightarrow>
              (\<exists>m \<in> set (fst (getLegalMoves s (fromRow mv) (fromCol mv))).
                  toRow m = toRow mv \<and> toCol m = toCol mv))"
proof (cases "allLegalMoves s = []")
  case True
  then have "getBestMove srt g s depth =
      Some (mkMove (-1) (-1) (-1) (-1) False False False False 0, s, g)"
    by (simp add: getBestMove_def collectMoves_all[OF wf] Let_def)
  with True show ?thesis by (simp add: coords_def mkMove_def)
next
  case False
  define scored where "scored = scoreMoves s g (allLegalMoves s)"
  have len: "map coords (fst scored) = map coords (allLegalMoves s)"
    unfolding scored_def by (rule scoreMoves_coords)
  with False have "fst scored \<noteq> []" by auto
  with perm[of "fst scored"] have "srt (fst scored) \<noteq> []" by (metis set_empty)
  then obtain first others where so: "srt (fst scored) = first # others"
    by (cases "srt (fst scored)") auto
  define res where "res = searchMoves (nat (depth - 1)) (fst (snd scored)) (snd (snd scored)) first
      (if currentPlayer (fst (snd scored)) = WHITE then -999999 else 999999) (first # others)"
  have gb: "getBestMove srt g s depth = Some res"
    using False depth so
    by (simp add: getBestMove_def collectMoves_all[OF wf] Let_def scored_def res_def)
  have "fst res \<in> insert first (set (first # others))"
    unfolding res_def by (rule searchMoves_member)
  then have "fst res \<in> set (first # others)" by simp
  then have "fst res \<in> set (srt (fst scored))" by (simp only: so)
  then have "fst res \<in> set (fst scored)" by (simp only: perm)
  then have "coords (fst res) \<in> set (map coords (fst scored))" by simp
  then have "coords (fst res) \<in> set (map coords (allLegalMoves s))" by (simp only: len)
  then obtain m where m: "m \<in> set (allLegalMoves s)" "coords m = coords (fst res)" by auto
  from m(1) obtain r c where rc: "isValidPosition r c" "m \<in> set (fst (getLegalMoves s r c))"
    by (auto simp: allLegalMoves_member)
  from legal_origin[OF wf home rc(2)] have o: "fromRow m = r" "fromCol m = c" by simp_all
  from m(2) have eq: "fromRow (fst res) = fromRow m" "fromCol (fst res) = fromCol m"
      "toRow (fst res) = toRow m" "toCol (fst res) = toCol m"
    by (simp_all add: coords_def)
  have nonsent: "coords (fst res) \<noteq> (-1, -1, -1, -1)"
    using eq o rc(1) by (auto simp: coords_def isValidPosition_def)
  have "\<exists>m' \<in> set (fst (getLegalMoves s (fromRow (fst res)) (fromCol (fst res)))).
          toRow m' = toRow (fst res) \<and> toCol m' = toCol (fst res)"
    using rc(2) eq o by auto
  with gb nonsent False show ?thesis
    by (intro exI[of _ "fst res"] exI[of _ "fst (snd res)"] exI[of _ "snd (snd res)"]) simp
qed

lemma set_insertByScore: "set (insertByScore m ms) = insert m (set ms)"
  by (induction ms) auto

lemma set_sortByScore: "set (sortByScore ms) = set ms"
  by (induction ms) (simp_all add: sortByScore_def set_insertByScore)

lemma getBestMove_legal_at_call_initial:
  "wfBoard (board newGame) \<and> kingsHome newGame \<and> (1::int) \<le> 1 \<and>
   (\<forall>ms. set (sortByScore ms) = set ms) \<and>
   fst (getLegalMoves newGame 6 0) \<noteq> [] \<and>
   (\<exists>mv s' g'. getBestMove sortByScore zeroRng newGame 1 = Some (mv, s', g') \<and>
      coords mv \<noteq> (-1, -1, -1, -1) \<and>
      (\<exists>m \<in> set (fst (getLegalMoves newGame (fromRow mv) (fromCol mv))).
          toRow m = toRow mv \<and> toCol m = toCol mv))"
proof -
  have h1: "wfBoard (board newGame)" by code_simp
  have h2: "kingsHome newGame" by code_simp
  have h3: "fst (getLegalMoves newGame 6 0) \<noteq> []" by code_simp
  have v: "isValidPosition 6 0" by code_simp
  from h3 obtain m where "m \<in> set (fst (getLegalMoves newGame 6 0))"
    by (cases "fst (getLegalMoves newGame 6 0)") auto
  with v have "m \<in> set (allLegalMoves newGame)"
    unfolding allLegalMoves_member by blast
  then have ne: "allLegalMoves newGame \<noteq> []" by auto
  from getBestMove_legal_at_call[OF h1 h2 order_refl set_sortByScore, of zeroRng] ne h1 h2 h3
  show ?thesis by (simp add: set_sortByScore)
qed

section \<open>The initial position\<close>

text \<open>
  Claim C6. In the freshly initialised game White is to move, and the legal-move lists
  of the 64 squares hold exactly 20 moves together: 16 moves of pawns and 4 of knights,
  none of them flagged as castling. The moves are listed as
  \<open>(fromRow, fromCol, toRow, toCol)\<close>.
\<close>

theorem initial_position_twenty_moves:
  "currentPlayer newGame = WHITE \<and>
   map (\<lambda>m. (fromRow m, fromCol m, toRow m, toCol m)) (allLegalMoves newGame) =
     [(6,0,5,0), (6,0,4,0), (6,1,5,1), (6,1,4,1), (6,2,5,2), (6,2,4,2), (6,3,5,3), (6,3,4,3),
      (6,4,5,4), (6,4,4,4), (6,5,5,5), (6,5,4,5), (6,6,5,6), (6,6,4,6), (6,7,5,7), (6,7,4,7),
      (7,1,5,0), (7,1,5,2), (7,6,5,5), (7,6,5,7)] \<and>
   length (allLegalMoves newGame) = 20 \<and>
   length (filter (\<lambda>m. type (at newGame (fromRow m) (fromCol m)) = PAWN) (allLegalMoves newGame)) = 16 \<and>
   length (filter (\<lambda>m. type (at newGame (fromRow m) (fromCol m)) = KNIGHT) (allLegalMoves newGame)) = 4 \<and>
   \<not> list_ex isCastling (allLegalMoves newGame)"
  by code_simp

text \<open>
  Claim C8. \<^verbatim>\<open>evaluateBoard\<close> is 0 on the initial position; with the black queen on
  \<open>(0, 3)\<close> replaced by the empty piece it is 900, so it grows by at least the queen's
  base value.
\<close>

theorem evaluate_initial_and_queen_removed:
  "evaluateBoard newGame = 0 \<and>
   at newGame 0 3 = \<lparr>type = QUEEN, color = BLACK, hasMoved = False\<rparr> \<and>
   evaluateBoard (put newGame 0 3 emptyPiece) = 900 \<and>
   evaluateBoard (put newGame 0 3 emptyPiece) \<ge> evaluateBoard newGame + 900"
  by code_simp

text \<open>
  Claim C4, at the input where the code departs from it. After the two-rank advance
  \<open>(6,4) \<rightarrow> (4,4)\<close> the en-passant target is the midpoint \<open>(5, 4)\<close>. After the reply
  \<open>(0,6) \<rightarrow> (2,5)\<close>, a knight move, \<^verbatim>\<open>executeMoveInternal\<close> has reset
  \<^verbatim>\<open>enPassantCol\<close> to \<open>-1\<close> but \<^verbatim>\<open>enPassantRow\<close> still holds 5: the row component
  of the target is not cleared.
\<close>

theorem enPassantRow_not_cleared:
  "fst (makeMove newGame 6 4 4 4 QUEEN) = True \<and>
   enPassantRow (snd (makeMove newGame 6 4 4 4 QUEEN)) = 5 \<and>
   enPassantCol (snd (makeMove newGame 6 4 4 4 QUEEN)) = 4 \<and>
   fst (makeMove (snd (makeMove newGame 6 4 4 4 QUEEN)) 0 6 2 5 QUEEN) = True \<and>
   enPassantCol (snd (makeMove (snd (makeMove newGame 6 4 4 4 QUEEN)) 0 6 2 5 QUEEN)) = -1 \<and>
   enPassantRow (snd (makeMove (snd (makeMove newGame 6 4 4 4 QUEEN)) 0 6 2 5 QUEEN)) = 5"
  by code_simp

section \<open>What the search leaves behind\<close>

text \<open>
  Claim C1, at an input where the code departs from it. \<^verbatim>\<open>getBestMove(1)\<close> on the
  initial position (generator drawing zeros, insertion sort) returns a move, but the
  state it leaves is not the initial one: the restore step of the second loop copies the
  moved piece back from the destination square, after \<^verbatim>\<open>executeMoveInternal\<close> has set
  its \<^verbatim>\<open>hasMoved\<close> flag, so all eight white pawns and both white knights keep
  \<^verbatim>\<open>hasMoved = true\<close>.
\<close>

theorem getBestMove_leaves_hasMoved_set:
  "(let r = getBestMove sortByScore zeroRng newGame 1;
        s1 = fst (snd (the r))
    in r \<noteq> None \<and>
       map (map hasMoved) (board s1) =
         [[False, False, False, False, False, False, False, False],
          [False, False, False, False, False, False, False, False],
          [False, False, False, False, False, False, False, False],
          [False, False, False, False, False, False, False, False],
          [False, False, False, False, False, False, False, False],
          [False, False, False, False, False, False, False, False],
          [True, True, True, True, True, True, True, True],
          [False, True, False, False, False, False, True, False]] \<and>
       hasMoved (at s1 6 0) \<and> \<not> hasMoved (at newGame 6 0) \<and>
       s1 \<noteq> newGame)"
  by code_simp

section \<open>Castling while in check\<close>

text \<open>
  Claim C3, at an input where the code departs from it. After the eight boundary moves of
  \<open>checkGame\<close> the white king on \<open>(7, 4)\<close> is in check from the bishop
  on \<open>(4, 1)\<close>, and the legal-move list of the king's square still holds the castling
  move to \<open>(7, 6)\<close>: \<^verbatim>\<open>getKingMoves\<close> tests the flags and the empty squares only, and
  \<^verbatim>\<open>isLegalMove\<close> tests the king's square after the move only.
\<close>

theorem castling_out_of_check_is_listed:
  "(let r = playMoves newGame checkGame;
        s = the r
    in r \<noteq> None \<and> currentPlayer s = WHITE \<and> isInCheck s WHITE \<and>
       at s 7 4 = \<lparr>type = KING, color = WHITE, hasMoved = False\<rparr> \<and>
       mkMove 7 4 7 6 False True False False 0 \<in> set (fst (getLegalMoves s 7 4)))"
  by code_simp

section \<open>A returned move that the boundary refuses\<close>

text \<open>
  Claim C7, at an input where the code departs from it. After the ten boundary moves
  of \<open>rookGame\<close> White is to move, the rook on \<open>(7, 7)\<close> may capture on \<open>(1, 7)\<close> and
  castling on the king's side is legal. \<^verbatim>\<open>getBestMove(1)\<close> (generator drawing zeros,
  insertion sort) returns the move \<open>(7, 7) \<rightarrow> (1, 7)\<close>. In the state the call leaves
  behind the rook is gone: the first loop's castling trial moves it to \<open>(7, 5)\<close> and
  restores the king only, and the castling trial of the second loop then overwrites
  \<open>(7, 5)\<close> with the now empty \<open>(7, 7)\<close>. Row 7 is shown as \<^verbatim>\<open>getPiece\<close> reports it. So
  the legal-move list generated for the returned from-square is empty, and \<^verbatim>\<open>makeMove\<close>
  refuses the returned move.
\<close>

theorem getBestMove_returns_refused_move:
  "(let r = playMoves newGame rookGame;
        s = the r;
        b = getBestMove sortByScore zeroRng s 1;
        mv = fst (the b);
        s1 = fst (snd (the b))
    in r \<noteq> None \<and> b \<noteq> None \<and>
       coords mv = (7, 7, 1, 7) \<and>
       at s 7 7 = \<lparr>type = ROOK, color = WHITE, hasMoved = False\<rparr> \<and>
       (7, 7, 1, 7) \<in> set (map coords (fst (getLegalMoves s 7 7))) \<and>
       map (\<lambda>c. getPiece s 7 c) idx8 = [14, 12, 13, 15, 16, 0, 0, 14] \<and>
       map (\<lambda>c. getPiece s1 7 c) idx8 = [14, 12, 13, 15, 16, 0, 0, 0] \<and>
       currentPlayer s1 = WHITE \<and>
       fst (getLegalMoves s1 (fromRow mv) (fromCol mv)) = [] \<and>
       fst (makeMove s1 (fromRow mv) (fromCol mv) (toRow mv) (toCol mv) QUEEN) = False)"
  by code_simp

end
